theory Spec2Isabelle
  imports Complex_Main
begin

section \<open>Scene viewer: data model of \<open>src/scripts/main.js\<close>\<close>

text \<open>
  JavaScript numbers are modelled as exact rationals (every finite double is a rational;
  the rounding of each arithmetic result is not modelled). Frame numbers are integers.
  \<open>null\<close> and \<open>undefined\<close> are both \<open>None\<close>: the source only ever tests them for
  truthiness. Objects of the rendering library keep only the properties the source reads or
  writes.
\<close>

subsection \<open>Objects of the rendering library\<close>

text \<open>A node of a loaded scene graph or a light: \<open>name\<close>, \<open>intensity\<close>, \<open>distance\<close>, \<open>visible\<close>.\<close>

record object3d =
  name :: string
  intensity :: rat
  distance :: rat
  visible :: bool

text \<open>
  A graph is the list of its nodes in traversal order; \<open>getObjectByName\<close> returns the first
  node with the name, or \<open>undefined\<close>.
\<close>

definition getObjectByName :: "string \<Rightarrow> object3d list \<Rightarrow> object3d option" where
  "getObjectByName n g = find (\<lambda>obj. name obj = n) g"

record renderer =
  toneMappingExposure :: rat

datatype camera = PerspectiveCamera
datatype controls = OrbitControls

text \<open>
  A \<open>Vector3\<close> holding the sun direction: the zero vector of \<open>new THREE.Vector3()\<close>, or the
  unit vector set by \<open>setFromSphericalCoords(1, phi, theta)\<close>, kept as its two angles in
  degrees.
\<close>

datatype vector3 = ZeroVector | Spherical rat rat

record sky =
  sunPosition :: vector3

text \<open>
  \<open>AnimationMixer\<close>: \<open>update(dt)\<close> adds \<open>dt\<close> (times its time scale, left at 1) to
  \<open>time\<close>; \<open>setTime(t)\<close> zeroes \<open>time\<close> and calls \<open>update(t)\<close>. The mixer time is not
  clamped to the clips' duration (only the actions' local times are, which the source never
  reads).
\<close>

record mixer =
  time :: rat

definition AnimationMixer_update :: "rat \<Rightarrow> mixer \<Rightarrow> mixer" where
  "AnimationMixer_update dt m = m\<lparr>time := time m + dt\<rparr>"

definition AnimationMixer_setTime :: "rat \<Rightarrow> mixer \<Rightarrow> mixer" where
  "AnimationMixer_setTime t m = AnimationMixer_update t (m\<lparr>time := 0\<rparr>)"

datatype loop_mode = LoopRepeat | LoopOnce

record action =
  clip :: string
  loop :: loop_mode
  clampWhenFinished :: bool
  paused :: bool

text \<open>A loaded glTF file: the nodes of \<open>gltf.scene\<close> and the names of \<open>gltf.animations\<close>.\<close>

record gltf =
  gltf_scene :: "object3d list"
  gltf_animations :: "string list"

subsection \<open>The two global state objects\<close>

text \<open>
  \<open>loadingComplete\<close> and \<open>isLoading\<close> are booleans whenever a function of \<open>main.js\<close>
  returns: \<open>cleanup3D\<close> nulls them with every other key and assigns \<open>false\<close> and
  \<open>true\<close> in the same synchronous run. A field that refers to a node or a light holds
  that object's properties; the source writes a node's properties only through these
  fields and reads them nowhere else, so the sharing with the scene graph is not modelled.
\<close>

record SceneState =
  scene :: "object3d list option"
  renderer :: "renderer option"
  camera :: "camera option"
  controls :: "controls option"
  support :: "object3d option"
  cylindricalBulb :: "object3d option"
  sphericalBulb :: "object3d option"
  blenderScene :: "object3d list option"
  sky :: "sky option"
  sun :: "vector3 option"
  pointLight :: "object3d option"
  spotLight :: "object3d option"
  ambientLight :: "object3d option"
  hemisphereLight :: "object3d option"
  loadingComplete :: bool
  isLoading :: bool

text \<open>
  \<open>onFrameCallback\<close> holds an opaque identifier of the page's function. The \<open>clock\<close> field
  is left out: the elapsed time it returns is the argument of each tick.
\<close>

record AnimationState =
  isPlaying :: bool
  currentFrame :: int
  targetFrame :: int
  direction :: int
  animations :: "action list"
  mixer :: "mixer option"
  speed :: rat
  onFrameCallback :: "nat option"

text \<open>The argument object handed to a frame callback.\<close>

record frame_info =
  info_currentFrame :: int
  info_targetFrame :: int
  status :: string

text \<open>
  The whole program state: the two globals, the messages written with \<open>console.error\<close>,
  the callback invocations made so far (callback identifier and argument, oldest first) and
  the number of render loops that are running (started by \<open>initializeAnimation\<close> and
  not yet ended).
\<close>

record world =
  sceneState :: SceneState
  animationState :: AnimationState
  console_errors :: "string list"
  callback_calls :: "(nat \<times> frame_info) list"
  render_loops :: nat

definition initial_SceneState :: SceneState where
  "initial_SceneState =
     \<lparr>scene = None, renderer = None, camera = None, controls = None,
      support = None, cylindricalBulb = None, sphericalBulb = None, blenderScene = None,
      sky = None, sun = None, pointLight = None, spotLight = None,
      ambientLight = None, hemisphereLight = None,
      loadingComplete = False, isLoading = True\<rparr>"

definition initial_AnimationState :: AnimationState where
  "initial_AnimationState =
     \<lparr>isPlaying = False, currentFrame = 0, targetFrame = 0, direction = 0,
      animations = [], mixer = None, speed = 3 / 2, onFrameCallback = None\<rparr>"

definition initial_world :: world where
  "initial_world =
     \<lparr>sceneState = initial_SceneState, animationState = initial_AnimationState,
      console_errors = [], callback_calls = [], render_loops = 0\<rparr>"

subsection \<open>Configuration constants\<close>

definition POINT_LIGHT_INTENSITY :: rat where "POINT_LIGHT_INTENSITY = 10"
definition POINT_LIGHT_DISTANCE :: rat where "POINT_LIGHT_DISTANCE = 5 / 4"
definition SPOT_LIGHT_INTENSITY :: rat where "SPOT_LIGHT_INTENSITY = 40"
definition SPOT_LIGHT_DISTANCE :: rat where "SPOT_LIGHT_DISTANCE = 13"
definition HEMISPHERE_INTENSITY :: rat where "HEMISPHERE_INTENSITY = 1 / 2"
definition AMBIENT_INTENSITY :: rat where "AMBIENT_INTENSITY = 1 / 5"
definition SKY_ELEVATION :: rat where "SKY_ELEVATION = 90"
definition SKY_AZIMUTH :: rat where "SKY_AZIMUTH = 90"
definition FRAMES_PER_SECOND :: rat where "FRAMES_PER_SECOND = 60"

section \<open>Animation controller\<close>

text \<open>
  \<open>Math.round\<close> rounds halves towards plus infinity, \<open>floor (x + 1/2)\<close>, which is how
  \<^const>\<open>round\<close> is defined.
\<close>

definition frame_of :: "mixer \<Rightarrow> int" where
  "frame_of m = round (time m * FRAMES_PER_SECOND)"

text \<open>
  \<open>if (AnimationState.onFrameCallback) AnimationState.onFrameCallback({...})\<close>: the call is
  recorded; what the page's function does is not part of \<open>main.js\<close>.
\<close>

definition invoke :: "nat option \<Rightarrow> frame_info \<Rightarrow> world \<Rightarrow> world" where
  "invoke cb info w =
     (case cb of
        None \<Rightarrow> w
      | Some f \<Rightarrow> w\<lparr>callback_calls := callback_calls w @ [(f, info)]\<rparr>)"

definition set_paused :: "bool \<Rightarrow> action list \<Rightarrow> action list" where
  "set_paused b acts = map (\<lambda>a. a\<lparr>paused := b\<rparr>) acts"

definition reached :: "AnimationState \<Rightarrow> int \<Rightarrow> bool" where
  "reached A cf \<longleftrightarrow>
     (direction A > 0 \<and> cf \<ge> targetFrame A) \<or> (direction A < 0 \<and> cf \<le> targetFrame A)"

definition updateAnimation :: "rat \<Rightarrow> world \<Rightarrow> world" where
  "updateAnimation deltaTime w =
     (let A = animationState w in
      case mixer A of
        None \<Rightarrow> w
      | Some m \<Rightarrow>
          if \<not> isPlaying A then w
          else
            let cf = frame_of m in
            if reached A cf then
              invoke (onFrameCallback A)
                \<lparr>info_currentFrame = targetFrame A, info_targetFrame = targetFrame A,
                 status = ''completed''\<rparr>
                (w\<lparr>animationState := A
                    \<lparr>isPlaying := False,
                     direction := 0,
                     currentFrame := targetFrame A,
                     mixer := Some (AnimationMixer_setTime (of_int (targetFrame A) / FRAMES_PER_SECOND) m),
                     animations := set_paused True (animations A)\<rparr>\<rparr>)
            else
              invoke (onFrameCallback A)
                \<lparr>info_currentFrame = cf, info_targetFrame = targetFrame A,
                 status = ''playing''\<rparr>
                (w\<lparr>animationState := A
                    \<lparr>animations := set_paused False (animations A),
                     mixer := Some (AnimationMixer_update (deltaTime * of_int (direction A) * speed A) m),
                     currentFrame := cf\<rparr>\<rparr>))"

definition playToFrame :: "int \<Rightarrow> nat option \<Rightarrow> world \<Rightarrow> world" where
  "playToFrame target onFrame w =
     (let A = animationState w in
      case mixer A of
        None \<Rightarrow> w
      | Some m \<Rightarrow>
          let cf = frame_of m in
          if cf = target then w
          else
            invoke onFrame
              \<lparr>info_currentFrame = cf, info_targetFrame = target, status = ''started''\<rparr>
              (w\<lparr>animationState := A
                  \<lparr>onFrameCallback := onFrame,
                   direction := (if target > cf then 1 else - 1),
                   targetFrame := target,
                   isPlaying := True,
                   animations := set_paused False (animations A)\<rparr>\<rparr>))"

definition stopAnimation :: "world \<Rightarrow> world" where
  "stopAnimation w =
     (let A = animationState w in
      case mixer A of
        None \<Rightarrow> w
      | Some m \<Rightarrow>
          w\<lparr>animationState := A
              \<lparr>isPlaying := False,
               direction := 0,
               animations := set_paused True (animations A)\<rparr>\<rparr>)"


text \<open>
  \<open>initializeAnimations(gltf)\<close>: a new mixer, one action per clip (\<open>LoopOnce\<close>, clamped),
  each played and paused at once, mixer time 0 and \<open>currentFrame\<close> 0. No other field of
  \<open>AnimationState\<close> is assigned.
\<close>

definition initializeAnimations :: "gltf \<Rightarrow> world \<Rightarrow> world" where
  "initializeAnimations g w =
     w\<lparr>animationState := (animationState w)
         \<lparr>mixer := Some (AnimationMixer_setTime 0 \<lparr>time = 0\<rparr>),
          animations :=
            set_paused True
              (map (\<lambda>c. \<lparr>clip = c, loop = LoopOnce, clampWhenFinished = True, paused = False\<rparr>)
                 (gltf_animations g)),
          currentFrame := 0\<rparr>\<rparr>"

text \<open>The render loop calls \<open>updateAnimation\<close> once per display frame with the elapsed time.\<close>

fun ticks :: "rat list \<Rightarrow> world \<Rightarrow> world" where
  "ticks [] w = w"
| "ticks (dt # dts) w = ticks dts (updateAnimation dt w)"

section \<open>Lighting and time of day\<close>

text \<open>
  Reading a property of \<open>null\<close> throws a \<open>TypeError\<close>. A function that can do so returns
  either the state it produced, or the error together with the state at the moment of the
  throw (the assignments made before it stay).
\<close>

type_synonym attempt = "(string \<times> SceneState) + SceneState"

definition TypeError :: string where
  "TypeError = ''TypeError''"

definition and_then :: "attempt \<Rightarrow> (SceneState \<Rightarrow> attempt) \<Rightarrow> attempt" where
  "and_then r f = (case r of Inl e \<Rightarrow> Inl e | Inr S \<Rightarrow> f S)"

text \<open>
  The local \<open>intensity\<close> of \<open>updateDaytime\<close>:
  \<open>timeOfDay = (elevation + 90) / 180; intensity = Math.max(0.1, timeOfDay)\<close>.
\<close>

definition daytime_intensity :: "rat \<Rightarrow> rat" where
  "daytime_intensity elevation = max (1 / 10) ((elevation + 90) / 180)"

definition updateDaytime :: "rat \<Rightarrow> rat \<Rightarrow> SceneState \<Rightarrow> attempt" where
  "updateDaytime elevation azimuth S =
     (if \<not> loadingComplete S then Inr S
      else
        let v = Spherical (90 - elevation) azimuth;
            k = daytime_intensity elevation
        in case sun S of
             None \<Rightarrow> Inl (TypeError, S)
           | Some _ \<Rightarrow>
               (case sky S of
                  None \<Rightarrow> Inl (TypeError, S\<lparr>sun := Some v\<rparr>)
                | Some y \<Rightarrow>
                    Inr (S\<lparr>sun := Some v,
                           sky := Some (y\<lparr>sunPosition := v\<rparr>),
                           hemisphereLight :=
                             map_option (\<lambda>l. l\<lparr>intensity := HEMISPHERE_INTENSITY * k\<rparr>)
                               (hemisphereLight S),
                           ambientLight :=
                             map_option (\<lambda>l. l\<lparr>intensity := AMBIENT_INTENSITY * k\<rparr>)
                               (ambientLight S),
                           pointLight :=
                             map_option (\<lambda>l. l\<lparr>intensity := POINT_LIGHT_INTENSITY / k\<rparr>)
                               (pointLight S),
                           spotLight :=
                             map_option (\<lambda>l. l\<lparr>intensity := SPOT_LIGHT_INTENSITY / k\<rparr>)
                               (spotLight S),
                           renderer :=
                             map_option (\<lambda>r. r\<lparr>toneMappingExposure := max (3 / 10) k\<rparr>)
                               (renderer S)\<rparr>)))"

text \<open>An object created with the library's defaults: no name, visible.\<close>

definition new_object :: "rat \<Rightarrow> object3d" where
  "new_object i = \<lparr>name = [], intensity = i, distance = 0, visible = True\<rparr>"

text \<open>
  \<open>scene.add(obj)\<close> where \<open>scene\<close> is the argument \<open>SceneState.scene\<close>: a \<open>TypeError\<close>
  when it is \<open>null\<close>.
\<close>

definition scene_add :: "object3d list \<Rightarrow> SceneState \<Rightarrow> attempt" where
  "scene_add nodes S =
     (case scene S of
        None \<Rightarrow> Inl (TypeError, S)
      | Some g \<Rightarrow> Inr (S\<lparr>scene := Some (g @ nodes)\<rparr>))"

definition lookup :: "string \<Rightarrow> SceneState \<Rightarrow> object3d option" where
  "lookup n S = (case scene S of None \<Rightarrow> None | Some g \<Rightarrow> getObjectByName n g)"

definition setupLighting :: "SceneState \<Rightarrow> attempt" where
  "setupLighting S =
     (let h = new_object HEMISPHERE_INTENSITY;
          a = new_object AMBIENT_INTENSITY
      in and_then (scene_add [h] (S\<lparr>hemisphereLight := Some h\<rparr>))
           (\<lambda>S1. scene_add [a] (S1\<lparr>ambientLight := Some a\<rparr>)))"

definition setupSky :: "SceneState \<Rightarrow> attempt" where
  "setupSky S =
     and_then (scene_add [new_object 0] (S\<lparr>sky := Some \<lparr>sunPosition = ZeroVector\<rparr>\<rparr>))
       (\<lambda>S1. updateDaytime SKY_ELEVATION SKY_AZIMUTH (S1\<lparr>sun := Some ZeroVector\<rparr>))"

definition configureLights :: "SceneState \<Rightarrow> attempt" where
  "configureLights S =
     (case scene S of
        None \<Rightarrow> Inl (TypeError, S)
      | Some g \<Rightarrow>
          let S1 = S\<lparr>pointLight := getObjectByName ''Point'' g\<rparr>;
              S2 = S1\<lparr>spotLight := getObjectByName ''Spot'' g\<rparr>
          in Inr (S2\<lparr>pointLight :=
                       map_option
                         (\<lambda>l. l\<lparr>intensity := POINT_LIGHT_INTENSITY,
                                distance := POINT_LIGHT_DISTANCE\<rparr>)
                         (pointLight S2),
                     spotLight :=
                       map_option
                         (\<lambda>l. l\<lparr>intensity := SPOT_LIGHT_INTENSITY,
                                distance := SPOT_LIGHT_DISTANCE\<rparr>)
                         (spotLight S2)\<rparr>))"

section \<open>Scene lifecycle\<close>

definition console_error :: "string \<Rightarrow> world \<Rightarrow> world" where
  "console_error msg w = w\<lparr>console_errors := console_errors w @ [msg]\<rparr>"

text \<open>
  \<open>initializeRenderer(container)\<close>. The two inputs say whether the page has the container
  element and whether the \<open>WebGLRenderer\<close> constructor succeeds.
\<close>

definition initializeRenderer :: "bool \<Rightarrow> bool \<Rightarrow> world \<Rightarrow> renderer option \<times> world" where
  "initializeRenderer container webgl w =
     (if \<not> container then (None, console_error ''Container not found'' w)
      else if \<not> webgl then (None, console_error ''Failed to initialize WebGL renderer:'' w)
      else (Some \<lparr>toneMappingExposure = 1 / 2\<rparr>, w))"

text \<open>
  The success callbacks of the two loads hold the scene object that was current when the
  load was issued, so their \<open>scene.add\<close> and \<open>scene.getObjectByName\<close> cannot throw. They
  are modelled for the case that this object is still \<open>SceneState.scene\<close>.
\<close>

definition captured_scene_add :: "object3d list \<Rightarrow> SceneState \<Rightarrow> SceneState" where
  "captured_scene_add nodes S = S\<lparr>scene := map_option (\<lambda>g. g @ nodes) (scene S)\<rparr>"

text \<open>Success callback of \<open>loadBlenderScene\<close>.\<close>

definition blenderScene_loaded :: "gltf \<Rightarrow> world \<Rightarrow> world" where
  "blenderScene_loaded g w =
     w\<lparr>sceneState :=
         captured_scene_add (gltf_scene g) ((sceneState w)\<lparr>blenderScene := Some (gltf_scene g)\<rparr>)\<rparr>"

text \<open>
  Success callback of \<open>loadModel\<close>. The fields hold the nodes found; the source writes
  \<open>visible\<close> through the field and never looks the node up again.
\<close>

definition model_loaded :: "gltf \<Rightarrow> world \<Rightarrow> world" where
  "model_loaded g w =
     (let S1 = captured_scene_add (gltf_scene g) (sceneState w);
          S2 = S1\<lparr>support := lookup ''Support'' S1\<rparr>;
          S3 = S2\<lparr>cylindricalBulb := lookup ''C_LightBulb'' S2\<rparr>;
          S4 = S3\<lparr>sphericalBulb := lookup ''S_LightBulb'' S3\<rparr>;
          S5 = S4\<lparr>sphericalBulb := map_option (\<lambda>b. b\<lparr>visible := False\<rparr>) (sphericalBulb S4)\<rparr>
      in initializeAnimations g (w\<lparr>sceneState := S5\<rparr>))"

text \<open>The \<open>catch\<close> block of \<open>initScene\<close>: the error is logged and \<open>isLoading\<close> cleared.\<close>

definition initScene_rejected :: "string \<Rightarrow> world \<Rightarrow> world" where
  "initScene_rejected err w =
     (let w1 = console_error (''Error during scene initialization: '' @ err) w
      in w1\<lparr>sceneState := (sceneState w1)\<lparr>isLoading := False\<rparr>\<rparr>)"

text \<open>
  The rest of the \<open>try\<close> block of \<open>initScene\<close>, run once both loads have resolved; an
  error thrown in it is caught by the same \<open>catch\<close> block.
\<close>

definition initScene_body :: "SceneState \<Rightarrow> attempt" where
  "initScene_body S =
     and_then (setupLighting S) (\<lambda>S1.
     and_then (setupSky S1) (\<lambda>S2.
     and_then (configureLights S2) (\<lambda>S3.
     and_then (scene_add [new_object (1 / 2)] S3) (\<lambda>S4.
     updateDaytime SKY_ELEVATION SKY_AZIMUTH (S4\<lparr>loadingComplete := True, isLoading := False\<rparr>)))))"

definition initScene_resolved :: "world \<Rightarrow> world" where
  "initScene_resolved w =
     (case initScene_body (sceneState w) of
        Inr S \<Rightarrow> w\<lparr>sceneState := S\<rparr>
      | Inl (e, S) \<Rightarrow> initScene_rejected e (w\<lparr>sceneState := S\<rparr>))"

text \<open>
  \<open>initializeAnimation()\<close> calls \<open>animate\<close> once: it returns at once when there is no
  renderer; otherwise it schedules itself for the next display frame (one more render loop
  is running) and, in the same call, runs \<open>updateAnimation\<close> with the time the clock
  reports (\<open>updateAnimation\<close> itself does nothing without a mixer) and renders.
\<close>

definition initializeAnimation :: "rat \<Rightarrow> world \<Rightarrow> world" where
  "initializeAnimation delta w =
     (if renderer (sceneState w) = None then w
      else updateAnimation delta (w\<lparr>render_loops := Suc (render_loops w)\<rparr>))"

text \<open>
  A later display frame of one running render loop, that is a scheduled call of
  \<open>animate\<close>: without a renderer the loop ends; otherwise it ticks and renders. When no
  loop is running there is no such call.
\<close>

definition animation_frame :: "rat \<Rightarrow> world \<Rightarrow> world" where
  "animation_frame delta w =
     (if render_loops w = 0 then w
      else if renderer (sceneState w) = None then w\<lparr>render_loops := render_loops w - 1\<rparr>
      else updateAnimation delta w)"

text \<open>
  What can happen while \<open>init3DScene\<close> is suspended and afterwards: the success or the
  error callback of one of its two loads, in the order the network decides, or a display
  frame of a running render loop.
\<close>

datatype event =
    BlenderLoaded gltf
  | BlenderFailed string
  | ModelLoaded gltf
  | ModelFailed string
  | AnimationFrame rat

text \<open>
  The \<open>Promise.all\<close> of one suspended \<open>initScene\<close>: which of the two promises have
  resolved, and whether it has settled (resolved or rejected), after which the rest of
  \<open>initScene\<close> and of \<open>init3DScene\<close> has run.
\<close>

record join =
  blender_resolved :: bool
  model_resolved :: bool
  settled :: bool

text \<open>
  \<open>init3DScene\<close> up to the \<open>await\<close> of \<open>Promise.all\<close> inside \<open>initScene\<close>: the
  synchronous part. The result has a \<^typ>\<open>join\<close> when the two loads were issued and the
  function is suspended.
\<close>

definition init3DScene_start :: "bool \<Rightarrow> bool \<Rightarrow> world \<Rightarrow> join option \<times> world" where
  "init3DScene_start container webgl w =
     (if scene (sceneState w) \<noteq> None then (None, w)
      else
        case initializeRenderer container webgl w of
          (None, w1) \<Rightarrow> (None, console_error ''Failed to initialize renderer'' w1)
        | (Some r, w1) \<Rightarrow>
            (Some \<lparr>blender_resolved = False, model_resolved = False, settled = False\<rparr>,
             w1\<lparr>sceneState := (sceneState w1)
                 \<lparr>renderer := Some r,
                  scene := Some [],
                  camera := Some PerspectiveCamera,
                  controls := Some OrbitControls,
                  isLoading := True\<rparr>\<rparr>))"

text \<open>
  \<open>Promise.all\<close> resolves once both promises have resolved: the rest of the \<open>try\<close>
  block of \<open>initScene\<close> runs, then \<open>init3DScene\<close> goes on to \<open>initializeAnimation()\<close>,
  whose first tick gets the elapsed time \<open>delta\<close>. These continuations are microtasks, so
  they run right after the callback that resolved the second promise, before any other
  event.
\<close>

fun loads_joined :: "rat \<Rightarrow> join \<times> world \<Rightarrow> join \<times> world" where
  "loads_joined delta (j, w) =
     (if settled j \<or> \<not> (blender_resolved j \<and> model_resolved j) then (j, w)
      else (j\<lparr>settled := True\<rparr>, initializeAnimation delta (initScene_resolved w)))"

text \<open>
  \<open>Promise.all\<close> rejects with the first error: \<open>initScene\<close> catches it itself, so the
  \<open>await\<close> in \<open>init3DScene\<close> returns normally and \<open>initializeAnimation()\<close> follows (the
  \<open>catch\<close> of \<open>init3DScene\<close>, which calls \<open>cleanup3D\<close>, is never entered). An error
  after the promise has settled is ignored.
\<close>

fun load_rejected :: "rat \<Rightarrow> string \<Rightarrow> join \<times> world \<Rightarrow> join \<times> world" where
  "load_rejected delta err (j, w) =
     (if settled j then (j, w)
      else (j\<lparr>settled := True\<rparr>, initializeAnimation delta (initScene_rejected err w)))"

text \<open>
  One event. A success callback always has its own effect, also after \<open>Promise.all\<close> has
  rejected. A load that resolves after \<open>cleanup3D\<close> is outside this model.
\<close>

fun on_event :: "rat \<Rightarrow> event \<Rightarrow> join \<times> world \<Rightarrow> join \<times> world" where
  "on_event delta (BlenderLoaded g) (j, w) =
     loads_joined delta (j\<lparr>blender_resolved := True\<rparr>, blenderScene_loaded g w)"
| "on_event delta (BlenderFailed err) (j, w) = load_rejected delta err (j, w)"
| "on_event delta (ModelLoaded g) (j, w) =
     loads_joined delta (j\<lparr>model_resolved := True\<rparr>, model_loaded g w)"
| "on_event delta (ModelFailed err) (j, w) = load_rejected delta err (j, w)"
| "on_event delta (AnimationFrame d) (j, w) = (j, animation_frame d w)"

fun run :: "rat \<Rightarrow> event list \<Rightarrow> join \<times> world \<Rightarrow> join \<times> world" where
  "run delta [] x = x"
| "run delta (ev # evs) x = run delta evs (on_event delta ev x)"

text \<open>
  \<open>init3DScene\<close> (\<open>toggleView('3DView')\<close>) followed by the events \<open>evs\<close>; \<open>delta\<close> is
  the elapsed time that the clock reports to the first tick of the new render loop. When
  the function returns early (a scene exists already, or no renderer could be made) it has
  issued no load, and the result is the state at its return.
\<close>

definition init3DScene :: "bool \<Rightarrow> bool \<Rightarrow> rat \<Rightarrow> event list \<Rightarrow> world \<Rightarrow> world" where
  "init3DScene container webgl delta evs w =
     (case init3DScene_start container webgl w of
        (None, w1) \<Rightarrow> w1
      | (Some j, w1) \<Rightarrow> snd (run delta evs (j, w1)))"

text \<open>
  \<open>cleanup3D\<close>: every key of \<open>SceneState\<close> is set to \<open>null\<close>, then the two flags are
  assigned. \<open>AnimationState\<close> is not touched.
\<close>

definition cleanup3D :: "world \<Rightarrow> world" where
  "cleanup3D w =
     w\<lparr>sceneState :=
         \<lparr>scene = None, renderer = None, camera = None, controls = None,
          support = None, cylindricalBulb = None, sphericalBulb = None, blenderScene = None,
          sky = None, sun = None, pointLight = None, spotLight = None,
          ambientLight = None, hemisphereLight = None,
          loadingComplete = False, isLoading = True\<rparr>\<rparr>"

section \<open>Notions used in the statements\<close>

text \<open>
  The signed distance in seconds that the mixer still has to travel in the direction of
  play, and a number of ticks of at least \<open>d\<close> seconds that covers it (one more for the
  tick that detects the arrival).
\<close>

definition seek_gap :: "AnimationState \<Rightarrow> mixer \<Rightarrow> rat" where
  "seek_gap A m =
     (if direction A > 0 then of_int (targetFrame A) / FRAMES_PER_SECOND - time m
      else time m - of_int (targetFrame A) / FRAMES_PER_SECOND)"

definition ticks_needed :: "rat \<Rightarrow> world \<Rightarrow> nat" where
  "ticks_needed d w =
     (case mixer (animationState w) of
        None \<Rightarrow> 0
      | Some m \<Rightarrow>
          Suc (nat \<lceil>seek_gap (animationState w) m / (d * speed (animationState w))\<rceil>))"

text \<open>The state is seeking and the rounded mixer frame has reached or passed the target.\<close>

definition crossing :: "world \<Rightarrow> bool" where
  "crossing w =
     (case mixer (animationState w) of
        None \<Rightarrow> False
      | Some m \<Rightarrow> isPlaying (animationState w) \<and> reached (animationState w) (frame_of m))"

text \<open>
  The state a completing tick leaves: stopped at frame \<open>T\<close>, mixer time exactly
  \<open>T / 60\<close>, every action paused, and the callback \<open>cb\<close> (when there is one) called last
  with status \<open>completed\<close>.
\<close>

definition snapped :: "int \<Rightarrow> nat option \<Rightarrow> world \<Rightarrow> bool" where
  "snapped T cb w =
     (let A = animationState w in
      \<not> isPlaying A \<and> direction A = 0 \<and> currentFrame A = T \<and>
      mixer A = Some \<lparr>time = of_int T / FRAMES_PER_SECOND\<rparr> \<and>
      list_all paused (animations A) \<and>
      (case cb of
         None \<Rightarrow> True
       | Some f \<Rightarrow>
           callback_calls w \<noteq> [] \<and>
           last (callback_calls w) =
             (f, \<lparr>info_currentFrame = T, info_targetFrame = T, status = ''completed''\<rparr>)))"

text \<open>A sample model file and the controller right after it has loaded.\<close>

definition demo_gltf :: gltf where
  "demo_gltf =
     \<lparr>gltf_scene =
        [\<lparr>name = ''Support'', intensity = 0, distance = 0, visible = True\<rparr>,
         \<lparr>name = ''C_LightBulb'', intensity = 0, distance = 0, visible = True\<rparr>,
         \<lparr>name = ''S_LightBulb'', intensity = 0, distance = 0, visible = True\<rparr>,
         \<lparr>name = ''Point'', intensity = 1, distance = 0, visible = True\<rparr>,
         \<lparr>name = ''Spot'', intensity = 1, distance = 0, visible = True\<rparr>],
      gltf_animations = [''Open'', ''Tilt'']\<rparr>"

definition ready_world :: world where
  "ready_world = initializeAnimations demo_gltf initial_world"







text \<open>A sample backdrop file and the state after a first activation with both files loaded.\<close>

definition backdrop_gltf :: gltf where
  "backdrop_gltf =
     \<lparr>gltf_scene = [\<lparr>name = ''Wall'', intensity = 0, distance = 0, visible = True\<rparr>],
      gltf_animations = []\<rparr>"

definition active_world :: world where
  "active_world =
     init3DScene True True 0 [BlenderLoaded backdrop_gltf, ModelLoaded demo_gltf] initial_world"

text \<open>
  The two shapes of \<open>SceneState\<close> that the specification allows, over its fourteen
  object-valued fields (the two loading flags are never objects).
\<close>

definition all_null :: "SceneState \<Rightarrow> bool" where
  "all_null S \<longleftrightarrow>
     scene S = None \<and> renderer S = None \<and> camera S = None \<and> controls S = None \<and>
     support S = None \<and> cylindricalBulb S = None \<and> sphericalBulb S = None \<and>
     blenderScene S = None \<and> sky S = None \<and> sun S = None \<and> pointLight S = None \<and>
     spotLight S = None \<and> ambientLight S = None \<and> hemisphereLight S = None"


text \<open>
  The intensity factor as the specification words it,
  \<open>clamp(0.1, 1.0, (elevation + 90) / 180)\<close>, to compare with \<^const>\<open>daytime_intensity\<close>.
\<close>

definition spec_intensity_factor :: "rat \<Rightarrow> rat" where
  "spec_intensity_factor elevation = max (1 / 10) (min 1 ((elevation + 90) / 180))"

text \<open>
  Display frames as events; the events of an activation in which both loads resolve, in
  either order, with display frames before, between and after the two callbacks.
\<close>

definition frames :: "rat list \<Rightarrow> event list" where
  "frames ds = map AnimationFrame ds"



text \<open>
  Two states of an activation with the same \<open>SceneState\<close> and the same progress of the
  loads; two values of \<open>AnimationState\<close> with the same speed, target and callback; and what
  a sequence of events makes of \<open>AnimationState\<close> while no seek is in progress (only the
  model's callback writes to it).
\<close>

definition same_scene :: "join \<times> world \<Rightarrow> join \<times> world \<Rightarrow> bool" where
  "same_scene x y \<longleftrightarrow> fst x = fst y \<and> sceneState (snd x) = sceneState (snd y)"

definition carried :: "AnimationState \<Rightarrow> AnimationState \<Rightarrow> bool" where
  "carried A B \<longleftrightarrow>
     speed A = speed B \<and> targetFrame A = targetFrame B \<and> onFrameCallback A = onFrameCallback B"

fun reload :: "event list \<Rightarrow> AnimationState \<Rightarrow> AnimationState" where
  "reload [] A = A"
| "reload (ModelLoaded g # evs) A =
     reload evs
       (A\<lparr>mixer := Some (AnimationMixer_setTime 0 \<lparr>time = 0\<rparr>),
          animations :=
            set_paused True
              (map (\<lambda>c. \<lparr>clip = c, loop = LoopOnce, clampWhenFinished = True, paused = False\<rparr>)
                 (gltf_animations g)),
          currentFrame := 0\<rparr>)"
| "reload (_ # evs) A = reload evs A"


section \<open>Properties\<close>

lemma list_all_set_paused: "list_all paused (set_paused True acts)"
  by (induction acts) (simp_all add: set_paused_def)

subsection \<open>Time of day\<close>

text \<open>
  C4, as the specification states it, fails: the source takes \<open>Math.max(0.1, timeOfDay)\<close>
  and has no upper bound, so above 90 degrees the factor exceeds 1 (1.5 at 180 degrees,
  hemisphere intensity 0.75 instead of 0.5).
\<close>

theorem no_upper_clamp_counterexample:
  "daytime_intensity 180 = 3 / 2 \<and> spec_intensity_factor 180 = 1 \<and>
   (case updateDaytime 180 90 (sceneState active_world) of
      Inl _ \<Rightarrow> False
    | Inr S \<Rightarrow>
        map_option intensity (hemisphereLight S) = Some (3 / 4) \<and>
        map_option intensity (hemisphereLight S)
          \<noteq> Some (HEMISPHERE_INTENSITY * spec_intensity_factor 180))"
  by code_simp

text \<open>
  C4, amended. Before loading is complete \<open>updateDaytime\<close> changes nothing. Once it is
  (sun and sky exist), for every elevation it returns normally with the factor
  \<open>k = max(0.1, (elevation + 90) / 180)\<close>: the hemisphere and ambient lights that exist get
  \<open>0.5 k\<close> and \<open>0.2 k\<close>, the point and spot lights that exist get \<open>10 / k\<close> and \<open>40 / k\<close>,
  and the renderer's exposure is \<open>max(0.3, k)\<close>, at least 0.3. The factor equals the clamp
  to \<open>[0.1, 1]\<close> exactly when the elevation is at most 90; above that it is greater than 1.
\<close>

theorem updateDaytime_intensities:
  "(\<not> loadingComplete S \<longrightarrow> updateDaytime elevation azimuth S = Inr S) \<and>
   (loadingComplete S \<and> sun S \<noteq> None \<and> sky S \<noteq> None \<longrightarrow>
     (\<exists>S'. updateDaytime elevation azimuth S = Inr S' \<and>
       (let k = max (1 / 10) ((elevation + 90) / 180) in
          map_option intensity (hemisphereLight S') =
            map_option (\<lambda>_. HEMISPHERE_INTENSITY * k) (hemisphereLight S) \<and>
          map_option intensity (ambientLight S') =
            map_option (\<lambda>_. AMBIENT_INTENSITY * k) (ambientLight S) \<and>
          map_option intensity (pointLight S') =
            map_option (\<lambda>_. POINT_LIGHT_INTENSITY / k) (pointLight S) \<and>
          map_option intensity (spotLight S') =
            map_option (\<lambda>_. SPOT_LIGHT_INTENSITY / k) (spotLight S) \<and>
          map_option toneMappingExposure (renderer S') =
            map_option (\<lambda>_. max (3 / 10) k) (renderer S) \<and>
          3 / 10 \<le> max (3 / 10) k \<and>
          (if elevation \<le> 90 then k = spec_intensity_factor elevation
           else spec_intensity_factor elevation = 1 \<and> 1 < k))))"
proof (intro conjI impI)
  assume "\<not> loadingComplete S"
  then show "updateDaytime elevation azimuth S = Inr S"
    by (simp add: updateDaytime_def)
next
  assume "loadingComplete S \<and> sun S \<noteq> None \<and> sky S \<noteq> None"
  then obtain s y where "loadingComplete S" and "sun S = Some s" and "sky S = Some y"
    by auto
  then show "\<exists>S'. updateDaytime elevation azimuth S = Inr S' \<and>
       (let k = max (1 / 10) ((elevation + 90) / 180) in
          map_option intensity (hemisphereLight S') =
            map_option (\<lambda>_. HEMISPHERE_INTENSITY * k) (hemisphereLight S) \<and>
          map_option intensity (ambientLight S') =
            map_option (\<lambda>_. AMBIENT_INTENSITY * k) (ambientLight S) \<and>
          map_option intensity (pointLight S') =
            map_option (\<lambda>_. POINT_LIGHT_INTENSITY / k) (pointLight S) \<and>
          map_option intensity (spotLight S') =
            map_option (\<lambda>_. SPOT_LIGHT_INTENSITY / k) (spotLight S) \<and>
          map_option toneMappingExposure (renderer S') =
            map_option (\<lambda>_. max (3 / 10) k) (renderer S) \<and>
          3 / 10 \<le> max (3 / 10) k \<and>
          (if elevation \<le> 90 then k = spec_intensity_factor elevation
           else spec_intensity_factor elevation = 1 \<and> 1 < k))"
    by (simp add: updateDaytime_def daytime_intensity_def spec_intensity_factor_def Let_def
        option.map_comp comp_def)
qed

theorem updateDaytime_intensities_witness:
  "let S0 = sceneState initial_world; S = sceneState active_world in
     \<not> loadingComplete S0 \<and> updateDaytime 0 45 S0 = Inr S0 \<and>
     loadingComplete S \<and> sun S \<noteq> None \<and> sky S \<noteq> None \<and>
     (\<exists>S'. updateDaytime 0 45 S = Inr S' \<and>
        map_option intensity (hemisphereLight S') = Some (1 / 4) \<and>
        map_option intensity (ambientLight S') = Some (1 / 10) \<and>
        map_option intensity (pointLight S') = Some 20 \<and>
        map_option intensity (spotLight S') = Some 80 \<and>
        map_option toneMappingExposure (renderer S') = Some (1 / 2))"
proof -
  define S0 where "S0 = sceneState initial_world"
  define S where "S = sceneState active_world"
  have g: "\<not> loadingComplete S0" unfolding S0_def by code_simp
  have n: "updateDaytime 0 45 S0 = Inr S0"
    using updateDaytime_intensities [of S0 0 45] g by blast
  have h1: "loadingComplete S" unfolding S_def by code_simp
  have h2: "sun S \<noteq> None" unfolding S_def by code_simp
  have h3: "sky S \<noteq> None" unfolding S_def by code_simp
  have l1: "hemisphereLight S \<noteq> None" unfolding S_def by code_simp
  have l2: "ambientLight S \<noteq> None" unfolding S_def by code_simp
  have l3: "pointLight S \<noteq> None" unfolding S_def by code_simp
  have l4: "spotLight S \<noteq> None" unfolding S_def by code_simp
  have l5: "renderer S \<noteq> None" unfolding S_def by code_simp
  from updateDaytime_intensities [of S 0 45] h1 h2 h3
  obtain S' where r: "updateDaytime 0 45 S = Inr S'"
    and v: "let k = max (1 / 10) ((0 + 90) / 180 :: rat) in
        map_option intensity (hemisphereLight S') =
          map_option (\<lambda>_. HEMISPHERE_INTENSITY * k) (hemisphereLight S) \<and>
        map_option intensity (ambientLight S') =
          map_option (\<lambda>_. AMBIENT_INTENSITY * k) (ambientLight S) \<and>
        map_option intensity (pointLight S') =
          map_option (\<lambda>_. POINT_LIGHT_INTENSITY / k) (pointLight S) \<and>
        map_option intensity (spotLight S') =
          map_option (\<lambda>_. SPOT_LIGHT_INTENSITY / k) (spotLight S) \<and>
        map_option toneMappingExposure (renderer S') =
          map_option (\<lambda>_. max (3 / 10) k) (renderer S) \<and>
        3 / 10 \<le> max (3 / 10) k \<and>
        (if (0::rat) \<le> 90 then k = spec_intensity_factor 0
         else spec_intensity_factor 0 = 1 \<and> 1 < k)"
    by blast
  have "map_option intensity (hemisphereLight S') = Some (1 / 4) \<and>
        map_option intensity (ambientLight S') = Some (1 / 10) \<and>
        map_option intensity (pointLight S') = Some 20 \<and>
        map_option intensity (spotLight S') = Some 80 \<and>
        map_option toneMappingExposure (renderer S') = Some (1 / 2)"
    using v l1 l2 l3 l4 l5
    by (auto simp: Let_def HEMISPHERE_INTENSITY_def AMBIENT_INTENSITY_def
        POINT_LIGHT_INTENSITY_def SPOT_LIGHT_INTENSITY_def)
  with r have "\<exists>S'. updateDaytime 0 45 S = Inr S' \<and>
        map_option intensity (hemisphereLight S') = Some (1 / 4) \<and>
        map_option intensity (ambientLight S') = Some (1 / 10) \<and>
        map_option intensity (pointLight S') = Some 20 \<and>
        map_option intensity (spotLight S') = Some 80 \<and>
        map_option toneMappingExposure (renderer S') = Some (1 / 2)"
    by blast
  then show ?thesis
    unfolding S_def [symmetric] S0_def [symmetric] Let_def using g n h1 h2 h3 by (intro conjI)
qed

lemma daytime_intensity_mono: "e1 \<le> e2 \<Longrightarrow> daytime_intensity e1 \<le> daytime_intensity e2"
  by (simp add: daytime_intensity_def max_def divide_right_mono)

lemma daytime_intensity_pos: "0 < daytime_intensity e"
  by (simp add: daytime_intensity_def max_def)

lemma inverse_scaling_antimono:
  assumes "e1 \<le> e2" and "0 \<le> c"
  shows "c / daytime_intensity e2 \<le> c / daytime_intensity e1"
proof -
  have "0 < daytime_intensity e2 * daytime_intensity e1"
    using daytime_intensity_pos [of e1] daytime_intensity_pos [of e2] by simp
  with daytime_intensity_mono [OF assms(1)] assms(2) show ?thesis
    by (rule divide_left_mono)
qed

text \<open>
  C8. For elevations \<open>-90 \<le> e1 \<le> e2 \<le> 90\<close> the intensity factor does not decrease and
  stays within \<open>[0.1, 1]\<close>, and the point and spot intensities that \<open>updateDaytime\<close> sets
  for \<open>e2\<close> are at most those it sets for \<open>e1\<close>.
\<close>

theorem daytime_monotone:
  assumes "- 90 \<le> e1" and "e1 \<le> e2" and "e2 \<le> 90"
    and "loadingComplete S" and "sun S = Some s" and "sky S = Some y"
  shows "daytime_intensity e1 \<le> daytime_intensity e2 \<and>
         1 / 10 \<le> daytime_intensity e1 \<and> daytime_intensity e2 \<le> 1 \<and>
         (\<exists>S1 S2. updateDaytime e1 a1 S = Inr S1 \<and> updateDaytime e2 a2 S = Inr S2 \<and>
            rel_option (\<lambda>i2 i1. i2 \<le> i1)
              (map_option intensity (pointLight S2)) (map_option intensity (pointLight S1)) \<and>
            rel_option (\<lambda>i2 i1. i2 \<le> i1)
              (map_option intensity (spotLight S2)) (map_option intensity (spotLight S1)))"
proof -
  have m: "daytime_intensity e1 \<le> daytime_intensity e2"
    using assms(2) by (rule daytime_intensity_mono)
  have lo: "1 / 10 \<le> daytime_intensity e1"
    by (simp add: daytime_intensity_def)
  have hi: "daytime_intensity e2 \<le> 1"
    using assms(3) by (simp add: daytime_intensity_def)
  have p: "POINT_LIGHT_INTENSITY / daytime_intensity e2 \<le> POINT_LIGHT_INTENSITY / daytime_intensity e1"
    using assms(2) by (rule inverse_scaling_antimono) (simp add: POINT_LIGHT_INTENSITY_def)
  have q: "SPOT_LIGHT_INTENSITY / daytime_intensity e2 \<le> SPOT_LIGHT_INTENSITY / daytime_intensity e1"
    using assms(2) by (rule inverse_scaling_antimono) (simp add: SPOT_LIGHT_INTENSITY_def)
  have "\<exists>S1 S2. updateDaytime e1 a1 S = Inr S1 \<and> updateDaytime e2 a2 S = Inr S2 \<and>
            rel_option (\<lambda>i2 i1. i2 \<le> i1)
              (map_option intensity (pointLight S2)) (map_option intensity (pointLight S1)) \<and>
            rel_option (\<lambda>i2 i1. i2 \<le> i1)
              (map_option intensity (spotLight S2)) (map_option intensity (spotLight S1))"
    using assms(4,5,6) p q
    by (cases "pointLight S"; cases "spotLight S") (simp_all add: updateDaytime_def Let_def)
  with m lo hi show ?thesis by blast
qed

theorem daytime_monotone_witness:
  "let S = sceneState active_world in
     (- 45::rat) \<le> 45 \<and> (- 90::rat) \<le> - 45 \<and> (45::rat) \<le> 90 \<and>
     loadingComplete S \<and> sun S = Some (Spherical 0 90) \<and>
     sky S = Some \<lparr>sunPosition = Spherical 0 90\<rparr> \<and>
     daytime_intensity (- 45) = 1 / 4 \<and> daytime_intensity 45 = 3 / 4 \<and>
     daytime_intensity (- 45) \<le> daytime_intensity 45 \<and>
     (\<exists>S1 S2. updateDaytime (- 45) 90 S = Inr S1 \<and> updateDaytime 45 90 S = Inr S2 \<and>
        rel_option (\<lambda>i2 i1. i2 \<le> i1)
          (map_option intensity (pointLight S2)) (map_option intensity (pointLight S1)) \<and>
        rel_option (\<lambda>i2 i1. i2 \<le> i1)
          (map_option intensity (spotLight S2)) (map_option intensity (spotLight S1)))"
proof -
  define S where "S = sceneState active_world"
  have e1: "(- 90::rat) \<le> - 45" by simp
  have e2: "(- 45::rat) \<le> 45" by simp
  have e3: "(45::rat) \<le> 90" by simp
  have h1: "loadingComplete S" unfolding S_def by code_simp
  have h2: "sun S = Some (Spherical 0 90)" unfolding S_def by code_simp
  have h3: "sky S = Some \<lparr>sunPosition = Spherical 0 90\<rparr>" unfolding S_def by code_simp
  have v1: "daytime_intensity (- 45) = 1 / 4" by code_simp
  have v2: "daytime_intensity 45 = 3 / 4" by code_simp
  note c = daytime_monotone [OF e1 e2 e3 h1 h2 h3, of 90 90]
  have c1: "daytime_intensity (- 45) \<le> daytime_intensity 45"
    using c by blast
  have c2: "\<exists>S1 S2. updateDaytime (- 45) 90 S = Inr S1 \<and> updateDaytime 45 90 S = Inr S2 \<and>
        rel_option (\<lambda>i2 i1. i2 \<le> i1)
          (map_option intensity (pointLight S2)) (map_option intensity (pointLight S1)) \<and>
        rel_option (\<lambda>i2 i1. i2 \<le> i1)
          (map_option intensity (spotLight S2)) (map_option intensity (spotLight S1))"
    using c by blast
  show ?thesis
    unfolding S_def [symmetric] Let_def by (intro conjI e1 e2 e3 h1 h2 h3 v1 v2 c1 c2)
qed

subsection \<open>Scene lifecycle\<close>


lemma sceneState_updateAnimation [simp]: "sceneState (updateAnimation dt w) = sceneState w"
  by (simp add: updateAnimation_def invoke_def Let_def split: option.splits)

lemma sceneState_animation_frame [simp]: "sceneState (animation_frame dt w) = sceneState w"
  by (simp add: animation_frame_def)

lemma sceneState_initializeAnimation [simp]: "sceneState (initializeAnimation dt w) = sceneState w"
  by (simp add: initializeAnimation_def)





lemma same_scene_refl [simp]: "same_scene x x"
  by (simp add: same_scene_def)










text \<open>
  C2, evaluated on the source. When the backdrop loads and the model load rejects, in
  either order, the error is logged and \<open>isLoading\<close> cleared, but \<open>initScene\<close> has caught
  the rejection, so \<open>init3DScene\<close> goes on to start the render loop and never reaches its
  own \<open>catch\<close> with \<open>cleanup3D\<close>: renderer, scene, camera, controls and \<open>blenderScene\<close>
  stay set.
\<close>

theorem rejected_load_keeps_context:
  "(let w = init3DScene True True delta [BlenderLoaded b, ModelFailed e] initial_world;
        S = sceneState w in
      renderer S \<noteq> None \<and> scene S \<noteq> None \<and> camera S \<noteq> None \<and> controls S \<noteq> None \<and>
      blenderScene S \<noteq> None \<and> sky S = None \<and> \<not> all_null S \<and>
      \<not> isLoading S \<and> \<not> loadingComplete S \<and>
      console_errors w = [''Error during scene initialization: '' @ e] \<and>
      render_loops w = 1) \<and>
   (let w = init3DScene True True delta [ModelFailed e, BlenderLoaded b] initial_world;
        S = sceneState w in
      renderer S \<noteq> None \<and> scene S \<noteq> None \<and> camera S \<noteq> None \<and> controls S \<noteq> None \<and>
      blenderScene S \<noteq> None \<and> sky S = None \<and> \<not> all_null S \<and>
      \<not> isLoading S \<and> \<not> loadingComplete S \<and>
      console_errors w = [''Error during scene initialization: '' @ e] \<and>
      render_loops w = 1)"
  by (simp add: init3DScene_def init3DScene_start_def
      initializeRenderer_def blenderScene_loaded_def captured_scene_add_def
      initScene_rejected_def console_error_def initializeAnimation_def updateAnimation_def
      initial_world_def initial_SceneState_def initial_AnimationState_def all_null_def Let_def)







lemma anim_blenderScene_loaded [simp]:
  "animationState (blenderScene_loaded g w) = animationState w"
  by (simp add: blenderScene_loaded_def)


lemma anim_initScene_rejected [simp]:
  "animationState (initScene_rejected e w) = animationState w"
  by (simp add: initScene_rejected_def console_error_def Let_def)




lemma carried_refl [simp]: "carried A A"
  by (simp add: carried_def)








lemma isPlaying_reload [simp]: "isPlaying (reload evs A) = isPlaying A"
  by (induction evs A rule: reload.induct) simp_all

lemma reload_frames [simp]: "reload (frames ds @ evs) A = reload evs A"
  by (induction ds) (simp_all add: frames_def)

lemma reload_frames_only [simp]: "reload (frames ds) A = A"
  by (induction ds) (simp_all add: frames_def)













subsection \<open>Ticks of the animation controller\<close>

lemma tick_crossing_snaps:
  assumes "mixer (animationState w) = Some m" and "isPlaying (animationState w)"
    and "reached (animationState w) (frame_of m)"
  shows "snapped (targetFrame (animationState w)) (onFrameCallback (animationState w))
           (updateAnimation dt w)"
  using assms
  by (simp add: updateAnimation_def snapped_def invoke_def Let_def list_all_set_paused
      AnimationMixer_setTime_def AnimationMixer_update_def split: option.splits)

lemma tick_not_playing: "\<not> isPlaying (animationState w) \<Longrightarrow> updateAnimation dt w = w"
  by (simp add: updateAnimation_def Let_def split: option.splits)

lemma ticks_not_playing: "\<not> isPlaying (animationState w) \<Longrightarrow> ticks dts w = w"
  by (induction dts) (simp_all add: tick_not_playing)

lemma tick_advances:
  assumes "mixer (animationState w) = Some m" and "isPlaying (animationState w)"
    and "\<not> reached (animationState w) (frame_of m)"
  shows "animationState (updateAnimation dt w) =
           (animationState w)
             \<lparr>animations := set_paused False (animations (animationState w)),
              mixer := Some \<lparr>time = time m + dt * of_int (direction (animationState w)) * speed (animationState w)\<rparr>,
              currentFrame := frame_of m\<rparr>"
  using assms
  by (simp add: updateAnimation_def invoke_def Let_def AnimationMixer_update_def
      split: option.splits)

lemma not_reached_gap_pos:
  assumes "direction A \<noteq> 0" and "\<not> reached A (frame_of m)"
  shows "0 < seek_gap A m"
proof (cases "direction A > 0")
  case True
  with assms have "frame_of m < targetFrame A" by (simp add: reached_def)
  then have "\<not> of_int (targetFrame A) \<le> time m * FRAMES_PER_SECOND"
    using round_mono [of "of_int (targetFrame A)" "time m * FRAMES_PER_SECOND"]
    by (auto simp: frame_of_def)
  then show ?thesis using True by (simp add: seek_gap_def FRAMES_PER_SECOND_def)
next
  case False
  with assms have neg: "direction A < 0" by simp
  with assms have "targetFrame A < frame_of m" by (simp add: reached_def)
  then have "\<not> time m * FRAMES_PER_SECOND \<le> of_int (targetFrame A)"
    using round_mono [of "time m * FRAMES_PER_SECOND" "of_int (targetFrame A)"]
    by (auto simp: frame_of_def)
  then show ?thesis using False by (simp add: seek_gap_def FRAMES_PER_SECOND_def)
qed

lemma snapped_stable:
  assumes "snapped T cb w"
  shows "ticks dts w = w"
  using assms by (simp add: snapped_def Let_def ticks_not_playing)

lemma gap_after_tick:
  assumes "direction A \<noteq> 0" and "0 < speed A" and "0 \<le> dt"
    and A': "A' = A\<lparr>animations := acts,
              mixer := Some \<lparr>time = time m + dt * of_int (direction A) * speed A\<rparr>,
              currentFrame := cf\<rparr>"
  shows "seek_gap A' \<lparr>time = time m + dt * of_int (direction A) * speed A\<rparr>
           \<le> seek_gap A m - dt * speed A"
proof -
  define x where "x = dt * of_int (direction A) * speed A"
  have dtpos: "0 \<le> dt * speed A"
    using assms by simp
  have xeq: "x = dt * speed A * of_int (direction A)"
    by (simp add: x_def)
  show ?thesis
  proof (cases "direction A > 0")
    case True
    then have "(1::rat) \<le> of_int (direction A)" by simp
    then have "dt * speed A * 1 \<le> dt * speed A * of_int (direction A)"
      using dtpos by (rule mult_left_mono)
    then have "dt * speed A \<le> x" using xeq by simp
    then show ?thesis
      unfolding A' x_def [symmetric] using True by (simp add: seek_gap_def)
  next
    case False
    with assms have "direction A \<le> - 1" by simp
    then have "of_int (direction A) \<le> (- 1::rat)"
      by (metis of_int_le_iff of_int_minus of_int_1)
    then have "dt * speed A * of_int (direction A) \<le> dt * speed A * (- 1)"
      using dtpos by (rule mult_left_mono)
    then have "x \<le> - (dt * speed A)" using xeq by simp
    then show ?thesis
      unfolding A' x_def [symmetric] using False by (simp add: seek_gap_def)
  qed
qed

lemma ceiling_step:
  fixes g g' q :: rat
  assumes "0 < q" and "0 < g" and "g' \<le> g - q"
  shows "Suc (nat \<lceil>g' / q\<rceil>) \<le> nat \<lceil>g / q\<rceil>"
proof -
  have "g' / q \<le> (g - q) / q"
    using assms by (simp add: divide_right_mono)
  also have "\<dots> = g / q - 1"
    using assms by (simp add: diff_divide_distrib)
  finally have "\<lceil>g' / q\<rceil> \<le> \<lceil>g / q - 1\<rceil>" by (rule ceiling_mono)
  then have le: "\<lceil>g' / q\<rceil> \<le> \<lceil>g / q\<rceil> - 1" by simp
  have "0 < g / q" using assms by simp
  then have "0 < \<lceil>g / q\<rceil>" by simp
  with le show ?thesis by linarith
qed

lemma ceiling_keep:
  fixes g g' q :: rat
  assumes "0 < q" and "g' \<le> g"
  shows "nat \<lceil>g' / q\<rceil> \<le> nat \<lceil>g / q\<rceil>"
proof -
  have "g' / q \<le> g / q"
    using assms by (simp add: divide_right_mono)
  then have "\<lceil>g' / q\<rceil> \<le> \<lceil>g / q\<rceil>" by (rule ceiling_mono)
  then show ?thesis by linarith
qed

lemma seek_converges:
  assumes "mixer (animationState w) = Some m"
    and "isPlaying (animationState w)"
    and "direction (animationState w) \<noteq> 0"
    and "0 < speed (animationState w)"
    and "0 < d"
    and "list_all (\<lambda>dt. 0 \<le> dt) dts"
    and "ticks_needed d w \<le> length (filter (\<lambda>dt. d \<le> dt) dts)"
  shows "snapped (targetFrame (animationState w)) (onFrameCallback (animationState w)) (ticks dts w) \<and>
         (\<exists>k<length dts. crossing (ticks (take k dts) w) \<and>
            updateAnimation (dts ! k) (ticks (take k dts) w) = ticks dts w)"
  using assms
proof (induction dts arbitrary: w m)
  case Nil
  then show ?case by (simp add: ticks_needed_def)
next
  case (Cons dt rest)
  let ?A = "animationState w"
  show ?case
  proof (cases "reached ?A (frame_of m)")
    case True
    have sn: "snapped (targetFrame ?A) (onFrameCallback ?A) (updateAnimation dt w)"
      using Cons.prems(1,2) True by (rule tick_crossing_snaps)
    then have st: "ticks rest (updateAnimation dt w) = updateAnimation dt w"
      by (rule snapped_stable)
    have cr: "crossing w"
      using Cons.prems(1,2) True by (simp add: crossing_def)
    have "crossing (ticks (take 0 (dt # rest)) w) \<and>
          updateAnimation ((dt # rest) ! 0) (ticks (take 0 (dt # rest)) w) = ticks (dt # rest) w"
      using cr st by simp
    then have "\<exists>k<length (dt # rest). crossing (ticks (take k (dt # rest)) w) \<and>
          updateAnimation ((dt # rest) ! k) (ticks (take k (dt # rest)) w) = ticks (dt # rest) w"
      by (intro exI [of _ 0]) simp
    then show ?thesis using sn st by simp
  next
    case False
    let ?w1 = "updateAnimation dt w"
    let ?m1 = "\<lparr>time = time m + dt * of_int (direction ?A) * speed ?A\<rparr>"
    let ?q = "d * speed ?A"
    have A1: "animationState ?w1 =
           ?A\<lparr>animations := set_paused False (animations ?A),
              mixer := Some ?m1, currentFrame := frame_of m\<rparr>"
      using Cons.prems(1,2) False by (rule tick_advances)
    have dt0: "0 \<le> dt" and rest_ok: "list_all (\<lambda>dt. 0 \<le> dt) rest"
      using Cons.prems(6) by simp_all
    have gpos: "0 < seek_gap ?A m"
      using Cons.prems(3) False by (rule not_reached_gap_pos)
    have gle: "seek_gap (animationState ?w1) ?m1 \<le> seek_gap ?A m - dt * speed ?A"
      using Cons.prems(3,4) dt0 A1 by (rule gap_after_tick)
    have qpos: "0 < ?q"
      using Cons.prems(4,5) by simp
    have need0: "Suc (nat \<lceil>seek_gap ?A m / ?q\<rceil>) \<le> length (filter (\<lambda>dt. d \<le> dt) (dt # rest))"
      using Cons.prems(1,7) by (simp add: ticks_needed_def)
    have "Suc (nat \<lceil>seek_gap (animationState ?w1) ?m1 / ?q\<rceil>) \<le> length (filter (\<lambda>dt. d \<le> dt) rest)"
    proof (cases "d \<le> dt")
      case True
      then have "?q \<le> dt * speed ?A"
        using Cons.prems(4) by (simp add: mult_right_mono)
      with gle have "seek_gap (animationState ?w1) ?m1 \<le> seek_gap ?A m - ?q" by simp
      with qpos gpos have "Suc (nat \<lceil>seek_gap (animationState ?w1) ?m1 / ?q\<rceil>)
            \<le> nat \<lceil>seek_gap ?A m / ?q\<rceil>"
        by (rule ceiling_step)
      with need0 True show ?thesis by simp
    next
      case False
      have "0 \<le> dt * speed ?A" using dt0 Cons.prems(4) by simp
      with gle have "seek_gap (animationState ?w1) ?m1 \<le> seek_gap ?A m" by simp
      with qpos have "nat \<lceil>seek_gap (animationState ?w1) ?m1 / ?q\<rceil>
            \<le> nat \<lceil>seek_gap ?A m / ?q\<rceil>"
        by (rule ceiling_keep)
      with need0 False show ?thesis by simp
    qed
    then have need: "ticks_needed d ?w1 \<le> length (filter (\<lambda>dt. d \<le> dt) rest)"
      using A1 by (simp add: ticks_needed_def)
    have IH: "snapped (targetFrame (animationState ?w1)) (onFrameCallback (animationState ?w1))
                (ticks rest ?w1) \<and>
              (\<exists>k<length rest. crossing (ticks (take k rest) ?w1) \<and>
                 updateAnimation (rest ! k) (ticks (take k rest) ?w1) = ticks rest ?w1)"
      using Cons.prems(2,3,4,5) rest_ok need A1
      by (intro Cons.IH [of ?w1 ?m1]) simp_all
    then obtain k where k: "k < length rest" "crossing (ticks (take k rest) ?w1)"
        "updateAnimation (rest ! k) (ticks (take k rest) ?w1) = ticks rest ?w1"
      by blast
    have "Suc k < length (dt # rest) \<and> crossing (ticks (take (Suc k) (dt # rest)) w) \<and>
          updateAnimation ((dt # rest) ! Suc k) (ticks (take (Suc k) (dt # rest)) w) = ticks (dt # rest) w"
      using k by simp
    then have "\<exists>j<length (dt # rest). crossing (ticks (take j (dt # rest)) w) \<and>
          updateAnimation ((dt # rest) ! j) (ticks (take j (dt # rest)) w) = ticks (dt # rest) w"
      by blast
    then show ?thesis using IH A1 by simp
  qed
qed

text \<open>
  C1. From any seeking state (mixer loaded, \<open>isPlaying\<close>, direction not 0) with a positive
  speed, the per-tick calls end at the target: when the elapsed times are non-negative and
  enough of them are at least \<open>d > 0\<close>, the run contains a tick at which the rounded frame
  has reached or crossed the target, that tick yields the final state, and in the final
  state \<open>isPlaying\<close> is false, \<open>direction\<close> is 0, \<open>currentFrame\<close> is the target \<open>T\<close>, the
  mixer time is exactly \<open>T / 60\<close>, every action is paused and the callback, if any, was
  called last with status \<open>completed\<close> and both frames \<open>T\<close>.
\<close>

theorem seek_reaches_target:
  assumes "mixer (animationState w) = Some m"
    and "isPlaying (animationState w)"
    and "direction (animationState w) \<noteq> 0"
    and "0 < speed (animationState w)"
    and "0 < d"
    and "list_all (\<lambda>dt. 0 \<le> dt) dts"
    and "ticks_needed d w \<le> length (filter (\<lambda>dt. d \<le> dt) dts)"
  shows "let T = targetFrame (animationState w); w' = ticks dts w; A' = animationState w' in
           \<not> isPlaying A' \<and> direction A' = 0 \<and> currentFrame A' = T \<and>
           mixer A' = Some \<lparr>time = of_int T / FRAMES_PER_SECOND\<rparr> \<and>
           list_all paused (animations A') \<and>
           (case onFrameCallback (animationState w) of
              None \<Rightarrow> True
            | Some f \<Rightarrow>
                callback_calls w' \<noteq> [] \<and>
                last (callback_calls w') =
                  (f, \<lparr>info_currentFrame = T, info_targetFrame = T, status = ''completed''\<rparr>)) \<and>
           (\<exists>k<length dts. crossing (ticks (take k dts) w) \<and>
              updateAnimation (dts ! k) (ticks (take k dts) w) = w')"
  using seek_converges [OF assms] by (simp add: snapped_def Let_def)

theorem seek_reaches_target_witness:
  "let w = playToFrame 3 (Some 7) ready_world; dts = [0, 1 / 60, 1 / 60, 1 / 50] in
     mixer (animationState w) = Some \<lparr>time = 0\<rparr> \<and>
     isPlaying (animationState w) \<and>
     direction (animationState w) \<noteq> 0 \<and>
     0 < speed (animationState w) \<and>
     (0::rat) < 1 / 60 \<and>
     list_all (\<lambda>dt. 0 \<le> dt) dts \<and>
     ticks_needed (1 / 60) w \<le> length (filter (\<lambda>dt. 1 / 60 \<le> dt) dts) \<and>
     currentFrame (animationState (ticks dts w)) = 3 \<and>
     mixer (animationState (ticks dts w)) = Some \<lparr>time = 1 / 20\<rparr> \<and>
     \<not> isPlaying (animationState (ticks dts w)) \<and>
     last (callback_calls (ticks dts w)) =
       (7, \<lparr>info_currentFrame = 3, info_targetFrame = 3, status = ''completed''\<rparr>)"
proof -
  define w where "w = playToFrame 3 (Some 7) ready_world"
  define dts :: "rat list" where "dts = [0, 1 / 60, 1 / 60, 1 / 50]"
  have w_eq: "animationState w =
      \<lparr>isPlaying = True, currentFrame = 0, targetFrame = 3, direction = 1,
       animations = [\<lparr>clip = ''Open'', loop = LoopOnce, clampWhenFinished = True, paused = False\<rparr>,
                     \<lparr>clip = ''Tilt'', loop = LoopOnce, clampWhenFinished = True, paused = False\<rparr>],
       mixer = Some \<lparr>time = 0\<rparr>, speed = 3 / 2, onFrameCallback = Some 7\<rparr>"
    unfolding w_def by code_simp
  have h1: "mixer (animationState w) = Some \<lparr>time = 0\<rparr>" by (simp add: w_eq)
  have h2: "isPlaying (animationState w)" by (simp add: w_eq)
  have h3: "direction (animationState w) \<noteq> 0" by (simp add: w_eq)
  have h4: "0 < speed (animationState w)" by (simp add: w_eq)
  have h5: "(0::rat) < 1 / 60" by simp
  have h6: "list_all (\<lambda>dt. 0 \<le> dt) dts" by (simp add: dts_def)
  have h7: "ticks_needed (1 / 60) w \<le> length (filter (\<lambda>dt. 1 / 60 \<le> dt) dts)"
    by (simp add: ticks_needed_def w_eq seek_gap_def FRAMES_PER_SECOND_def dts_def)
  note c = seek_reaches_target [OF h1 h2 h3 h4 h5 h6 h7]
  have c1: "currentFrame (animationState (ticks dts w)) = 3"
    using c by (simp add: Let_def w_eq)
  have c2: "mixer (animationState (ticks dts w)) = Some \<lparr>time = 1 / 20\<rparr>"
    using c by (simp add: Let_def w_eq FRAMES_PER_SECOND_def)
  have c3: "\<not> isPlaying (animationState (ticks dts w))"
    using c by (simp add: Let_def)
  have c4: "last (callback_calls (ticks dts w)) =
       (7, \<lparr>info_currentFrame = 3, info_targetFrame = 3, status = ''completed''\<rparr>)"
    using c by (simp add: Let_def w_eq)
  show ?thesis
    unfolding w_def [symmetric] dts_def [symmetric] Let_def
    by (intro conjI h1 h2 h3 h4 h5 h6 h7 c1 c2 c3 c4)
qed

text \<open>
  C5. In a seeking state with direction 1 or -1, \<open>playToFrame(T2)\<close> for a target on the
  other side of the rounded mixer frame overwrites target, callback and direction (the
  direction flips, no stop is needed), and the ticks that follow end with \<open>currentFrame\<close>
  exactly \<open>T2\<close>, the mixer at \<open>T2 / 60\<close>, every action paused and the new callback called
  last with status \<open>completed\<close>.
\<close>

theorem redirect_reaches_new_target:
  assumes "mixer (animationState w) = Some m"
    and "isPlaying (animationState w)"
    and "(direction (animationState w) = 1 \<and> T2 < frame_of m) \<or>
         (direction (animationState w) = - 1 \<and> frame_of m < T2)"
    and "0 < speed (animationState w)"
    and "0 < d"
    and "list_all (\<lambda>dt. 0 \<le> dt) dts"
    and "ticks_needed d (playToFrame T2 cb w) \<le> length (filter (\<lambda>dt. d \<le> dt) dts)"
  shows "let w2 = playToFrame T2 cb w; A2 = animationState w2;
             w' = ticks dts w2; A' = animationState w' in
           direction A2 = - direction (animationState w) \<and> targetFrame A2 = T2 \<and>
           isPlaying A2 \<and> onFrameCallback A2 = cb \<and>
           \<not> isPlaying A' \<and> direction A' = 0 \<and> currentFrame A' = T2 \<and>
           mixer A' = Some \<lparr>time = of_int T2 / FRAMES_PER_SECOND\<rparr> \<and>
           list_all paused (animations A') \<and>
           (case cb of
              None \<Rightarrow> True
            | Some f \<Rightarrow>
                callback_calls w' \<noteq> [] \<and>
                last (callback_calls w') =
                  (f, \<lparr>info_currentFrame = T2, info_targetFrame = T2, status = ''completed''\<rparr>))"
proof -
  let ?A = "animationState w"
  let ?w2 = "playToFrame T2 cb w"
  have ne: "frame_of m \<noteq> T2" using assms(3) by auto
  have A2: "animationState ?w2 =
      ?A\<lparr>onFrameCallback := cb,
         direction := (if T2 > frame_of m then 1 else - 1),
         targetFrame := T2,
         isPlaying := True,
         animations := set_paused False (animations ?A)\<rparr>"
    using assms(1) ne by (simp add: playToFrame_def invoke_def Let_def split: option.splits)
  have flip: "direction (animationState ?w2) = - direction ?A"
    using assms(3) A2 by auto
  have m2: "mixer (animationState ?w2) = Some m" using A2 assms(1) by simp
  have p2: "isPlaying (animationState ?w2)" using A2 by simp
  have d2: "direction (animationState ?w2) \<noteq> 0" using A2 by simp
  have s2: "0 < speed (animationState ?w2)" using A2 assms(4) by simp
  have "snapped (targetFrame (animationState ?w2)) (onFrameCallback (animationState ?w2))
          (ticks dts ?w2)"
    using seek_converges [OF m2 p2 d2 s2 assms(5) assms(6) assms(7)] by simp
  then have sn: "snapped T2 cb (ticks dts ?w2)" using A2 by simp
  show ?thesis
    using sn flip A2 by (simp add: snapped_def Let_def)
qed

theorem redirect_reaches_new_target_witness:
  "let w = ticks [1 / 60, 1 / 60, 1 / 60] (playToFrame 10 (Some 1) ready_world);
       dts = [1 / 60, 1 / 60, 1 / 60, 1 / 60] in
     mixer (animationState w) = Some \<lparr>time = 3 / 40\<rparr> \<and>
     isPlaying (animationState w) \<and>
     direction (animationState w) = 1 \<and> 1 < frame_of \<lparr>time = 3 / 40\<rparr> \<and>
     0 < speed (animationState w) \<and>
     (0::rat) < 1 / 60 \<and>
     list_all (\<lambda>dt. 0 \<le> dt) dts \<and>
     ticks_needed (1 / 60) (playToFrame 1 (Some 2) w) \<le> length (filter (\<lambda>dt. 1 / 60 \<le> dt) dts) \<and>
     direction (animationState (playToFrame 1 (Some 2) w)) = - 1 \<and>
     currentFrame (animationState (ticks dts (playToFrame 1 (Some 2) w))) = 1 \<and>
     mixer (animationState (ticks dts (playToFrame 1 (Some 2) w))) = Some \<lparr>time = 1 / 60\<rparr> \<and>
     \<not> isPlaying (animationState (ticks dts (playToFrame 1 (Some 2) w)))"
proof -
  define w where "w = ticks [1 / 60, 1 / 60, 1 / 60] (playToFrame 10 (Some 1) ready_world)"
  define dts :: "rat list" where "dts = [1 / 60, 1 / 60, 1 / 60, 1 / 60]"
  have h1: "mixer (animationState w) = Some \<lparr>time = 3 / 40\<rparr>"
    unfolding w_def by code_simp
  have h2: "isPlaying (animationState w)"
    unfolding w_def by code_simp
  have h3a: "direction (animationState w) = 1"
    unfolding w_def by code_simp
  have h3b: "1 < frame_of \<lparr>time = 3 / 40\<rparr>"
    by code_simp
  have h3: "(direction (animationState w) = 1 \<and> 1 < frame_of \<lparr>time = 3 / 40\<rparr>) \<or>
         (direction (animationState w) = - 1 \<and> frame_of \<lparr>time = 3 / 40\<rparr> < 1)"
    using h3a h3b by simp
  have h4: "0 < speed (animationState w)"
    unfolding w_def by code_simp
  have h5: "(0::rat) < 1 / 60" by simp
  have h6: "list_all (\<lambda>dt. 0 \<le> dt) dts" by (simp add: dts_def)
  have h7: "ticks_needed (1 / 60) (playToFrame 1 (Some 2) w)
              \<le> length (filter (\<lambda>dt. 1 / 60 \<le> dt) dts)"
    unfolding w_def dts_def by code_simp
  note c = redirect_reaches_new_target [OF h1 h2 h3 h4 h5 h6 h7]
  have c1: "direction (animationState (playToFrame 1 (Some 2) w)) = - 1"
    using c h3a by (simp add: Let_def)
  have c2: "currentFrame (animationState (ticks dts (playToFrame 1 (Some 2) w))) = 1"
    using c by (simp add: Let_def)
  have c3: "mixer (animationState (ticks dts (playToFrame 1 (Some 2) w))) = Some \<lparr>time = 1 / 60\<rparr>"
    using c by (simp add: Let_def FRAMES_PER_SECOND_def)
  have c4: "\<not> isPlaying (animationState (ticks dts (playToFrame 1 (Some 2) w)))"
    using c by (simp add: Let_def)
  show ?thesis
    unfolding w_def [symmetric] dts_def [symmetric] Let_def
    by (intro conjI h1 h2 h3a h3b h4 h5 h6 h7 c1 c2 c3 c4)
qed




text \<open>
  C9. When the target equals the current frame, which \<open>playToFrame\<close> computes as the
  rounded mixer time times 60, the call changes nothing: direction, target, playing flag,
  stored callback and the actions' paused flags are as before and no callback is invoked.
\<close>

theorem playToFrame_at_current_frame:
  assumes "mixer (animationState w) = Some m" and "frame_of m = target"
  shows "playToFrame target onFrame w = w"
  using assms by (simp add: playToFrame_def Let_def)

theorem playToFrame_at_current_frame_witness:
  "mixer (animationState ready_world) = Some \<lparr>time = 0\<rparr> \<and>
   frame_of \<lparr>time = 0\<rparr> = 0 \<and>
   playToFrame 0 (Some 7) ready_world = ready_world"
proof -
  have h1: "mixer (animationState ready_world) = Some \<lparr>time = 0\<rparr>"
    by code_simp
  have h2: "frame_of \<lparr>time = 0\<rparr> = 0"
    by code_simp
  show ?thesis
    using h1 h2 playToFrame_at_current_frame [OF h1 h2, of "Some 7"] by (intro conjI)
qed

text \<open>
  C10, as the specification states it, fails for the state after teardown: \<open>cleanup3D\<close>
  does not clear \<open>AnimationState.mixer\<close>, so there \<open>playToFrame\<close> starts a seek and
  calls the callback.
\<close>

theorem mixer_survives_teardown_counterexample:
  "let w = cleanup3D active_world; w' = playToFrame 10 (Some 7) w in
     all_null (sceneState w) \<and>
     mixer (animationState w) = Some \<lparr>time = 0\<rparr> \<and>
     isPlaying (animationState w') \<and> direction (animationState w') = 1 \<and>
     targetFrame (animationState w') = 10 \<and>
     callback_calls w' =
       [(7, \<lparr>info_currentFrame = 0, info_targetFrame = 10, status = ''started''\<rparr>)] \<and>
     animationState w' \<noteq> animationState w"
  by code_simp

text \<open>
  C10, amended. No mixer is loaded in the initial state, and \<open>cleanup3D\<close> leaves
  \<open>AnimationState\<close>, its mixer included, as it was. Whenever the mixer is \<open>null\<close>,
  \<open>playToFrame\<close>, \<open>stopAnimation\<close> and the per-tick \<open>updateAnimation\<close> each return
  without changing anything: the whole state, callback invocations included, is as before.
\<close>

theorem no_mixer_noop:
  "mixer (animationState initial_world) = None \<and>
   animationState (cleanup3D w) = animationState w \<and>
   (mixer (animationState w) = None \<longrightarrow>
      playToFrame target onFrame w = w \<and> stopAnimation w = w \<and>
      updateAnimation deltaTime w = w)"
  by (simp add: playToFrame_def stopAnimation_def updateAnimation_def cleanup3D_def
      initial_world_def initial_AnimationState_def)

theorem no_mixer_noop_witness:
  "mixer (animationState initial_world) = None \<and>
   playToFrame 30 (Some 7) initial_world = initial_world \<and>
   stopAnimation initial_world = initial_world \<and>
   updateAnimation (1 / 60) initial_world = initial_world \<and>
   animationState (cleanup3D active_world) = animationState active_world"
proof -
  note c = no_mixer_noop [of initial_world 30 "Some 7" "1 / 60"]
  have h: "mixer (animationState initial_world) = None"
    using c by blast
  have n: "playToFrame 30 (Some 7) initial_world = initial_world \<and>
      stopAnimation initial_world = initial_world \<and>
      updateAnimation (1 / 60) initial_world = initial_world"
    using c h by blast
  have k: "animationState (cleanup3D active_world) = animationState active_world"
    using no_mixer_noop [of active_world 0 None 0] by blast
  show ?thesis using h n k by (intro conjI) simp_all
qed

end
